theory Spec2Isabelle
  imports Main "HOL-Library.Char_ord" "HOL-Library.List_Lexorder"
begin

section \<open>Data model\<close>

text \<open>
  Identities are the string renderings of user ids, socket ids are socket.io's connection
  ids, room ids are strings, and a point in time is a number of milliseconds since the epoch.
  A string is a list of code units below 256; their order is the order of the code units, and
  lists of them are compared lexicographically, as JavaScript compares strings.
\<close>

type_synonym ident = string
type_synonym socket_id = string
type_synonym room = string
type_synonym time = int

text \<open>The errors a handler can catch: a JavaScript \<open>TypeError\<close>, a rejection by the
  schema validator, and a failure of the store itself.\<close>

datatype error = TypeError | ValidationError | StoreError

text \<open>A stored document of the \<open>Message\<close> model (\<open>models/Message.js\<close>); \<open>createdAt\<close> and
  \<open>updatedAt\<close> come from the schema option \<open>timestamps: true\<close>.\<close>

record message =
  mid :: nat
  sender :: ident
  recipient :: ident
  content :: string
  read :: bool
  readAt :: "time option"
  createdAt :: time
  updatedAt :: time

text \<open>The part of a \<open>User\<close> document the chat code reads.\<close>

record user =
  uid :: ident
  connections :: "ident list"

text \<open>The store: the two collections in insertion order, whether the store can be reached,
  and the next fresh message id.\<close>

record database =
  available :: bool
  messages :: "message list"
  users :: "user list"
  nextId :: nat

text \<open>The object handed to \<open>Message.create\<close> or \<open>new Message\<close>: a field that is missing,
  \<open>undefined\<close> or \<open>null\<close> is \<open>None\<close>.\<close>

record message_doc =
  doc_sender :: "ident option"
  doc_recipient :: "ident option"
  doc_content :: "string option"
  doc_createdAt :: "time option"
  doc_read :: "bool option"

section \<open>The persistence layer\<close>

text \<open>
  The schema validator of \<open>models/Message.js\<close>: \<open>sender\<close> and \<open>recipient\<close> are required,
  \<open>content\<close> is a required string (the empty string does not satisfy \<open>required\<close>) of at most
  5000 code units. There is no \<open>trim\<close> option and no \<open>minlength\<close>.
\<close>

definition maxlength :: nat where
  "maxlength = 5000"

definition validate_doc :: "message_doc \<Rightarrow> bool" where
  "validate_doc d =
     (doc_sender d \<noteq> None \<and> doc_recipient d \<noteq> None \<and>
      (case doc_content d of None \<Rightarrow> False
       | Some c \<Rightarrow> c \<noteq> [] \<and> length c \<le> maxlength))"

text \<open>
  Saving a new document: validation first, then the write. \<open>read\<close> defaults to false, a
  \<open>createdAt\<close> given by the caller is kept, otherwise it is the current time, and
  \<open>updatedAt\<close> of a new document is its \<open>createdAt\<close>.
\<close>

definition Message_create ::
  "database \<Rightarrow> time \<Rightarrow> message_doc \<Rightarrow> error + (message \<times> database)" where
  "Message_create d now doc =
     (if \<not> validate_doc doc then Inl ValidationError
      else if \<not> available d then Inl StoreError
      else
        (let t = (case doc_createdAt doc of Some t \<Rightarrow> t | None \<Rightarrow> now);
             m = \<lparr> mid = nextId d,
                   sender = the (doc_sender doc),
                   recipient = the (doc_recipient doc),
                   content = the (doc_content doc),
                   read = (case doc_read doc of Some b \<Rightarrow> b | None \<Rightarrow> False),
                   readAt = None,
                   createdAt = t,
                   updatedAt = t \<rparr>
         in Inr (m, d\<lparr> messages := messages d @ [m], nextId := Suc (nextId d) \<rparr>)))"

text \<open>Saving a document that is already stored replaces the stored copy with the same id
  and stamps \<open>updatedAt\<close>.\<close>

definition Message_save :: "database \<Rightarrow> time \<Rightarrow> message \<Rightarrow> error + (message \<times> database)" where
  "Message_save d now m =
     (if \<not> available d then Inl StoreError
      else
        (let m' = m\<lparr> updatedAt := now \<rparr>
         in Inr (m', d\<lparr> messages := map (\<lambda>x. if mid x = mid m then m' else x) (messages d) \<rparr>)))"

definition Message_findById :: "database \<Rightarrow> nat \<Rightarrow> error + message option" where
  "Message_findById d i =
     (if \<not> available d then Inl StoreError
      else Inr (find (\<lambda>m. mid m = i) (messages d)))"

definition User_findById :: "database \<Rightarrow> ident \<Rightarrow> error + user option" where
  "User_findById d i =
     (if \<not> available d then Inl StoreError
      else Inr (find (\<lambda>u. uid u = i) (users d)))"

text \<open>The two filters the chat code queries with.\<close>

definition involves :: "ident \<Rightarrow> message \<Rightarrow> bool" where
  "involves a m = (sender m = a \<or> recipient m = a)"

definition between :: "ident \<Rightarrow> ident \<Rightarrow> message \<Rightarrow> bool" where
  "between a b m = ((sender m = a \<and> recipient m = b) \<or> (sender m = b \<and> recipient m = a))"

definition unread_from :: "ident \<Rightarrow> ident \<Rightarrow> message \<Rightarrow> bool" where
  "unread_from p a m = (sender m = p \<and> recipient m = a \<and> \<not> read m)"

text \<open>\<open>.sort({createdAt: 1})\<close> and \<open>.sort({createdAt: -1})\<close>; documents with equal keys
  stay in insertion order.\<close>

definition oldest_first :: "message list \<Rightarrow> message list" where
  "oldest_first ms = sort_key createdAt ms"

definition newest_first :: "message list \<Rightarrow> message list" where
  "newest_first ms = sort_key (\<lambda>m. - createdAt m) ms"

section \<open>The room router\<close>

text \<open>
  \<open>[a, b].sort()\<close> on two strings: ascending by code units, the order kept when neither is
  smaller.
\<close>

definition js_sort2 :: "string \<Rightarrow> string \<Rightarrow> string list" where
  "js_sort2 x y = (if y < x then [y, x] else [x, y])"

text \<open>\<open>createRoomId\<close>: \<open>toString\<close> of a missing id throws a \<open>TypeError\<close>.\<close>

definition createRoomId :: "ident option \<Rightarrow> ident option \<Rightarrow> error + room" where
  "createRoomId userId1 userId2 =
     (case userId1 of None \<Rightarrow> Inl TypeError
      | Some s1 \<Rightarrow>
          (case userId2 of None \<Rightarrow> Inl TypeError
           | Some s2 \<Rightarrow>
               (let ids = js_sort2 s1 s2
                in Inr (''chat_'' @ ids ! 0 @ ''_'' @ ids ! 1))))"

section \<open>The socket server\<close>

text \<open>
  The process-wide state of the socket module: the three maps it declares
  (\<open>onlineUsers\<close>, \<open>userSockets\<close>, \<open>userRooms\<close>), what socket.io itself keeps (the
  connected sockets in the order they connected, and the rooms each has joined), and the
  store.
\<close>

record server =
  onlineUsers :: "ident \<rightharpoonup> socket_id"
  userSockets :: "socket_id \<rightharpoonup> ident"
  userRooms :: "ident \<rightharpoonup> room set"
  sockets :: "socket_id list"
  socketRooms :: "socket_id \<Rightarrow> room set"
  db :: database

text \<open>A socket as the handlers see it: its id and the \<open>userId\<close> the authentication
  middleware attached to it.\<close>

record socket =
  sock_id :: socket_id
  sock_userId :: ident

text \<open>The object emitted as \<open>newMessage\<close> and \<open>messageSent\<close>.\<close>

record message_data =
  d_id :: nat
  d_sender :: ident
  d_recipient :: ident
  d_content :: string
  d_createdAt :: time
  d_read :: bool
  d_updatedAt :: time

datatype event =
    UserOnline ident
  | UserOffline ident
  | NewMessage message_data
  | MessageSent message_data
  | MessageError error

text \<open>What a handler does, in the order it does it: a completed write of a message, or
  an event sent to the listed sockets.\<close>

datatype effect =
    DbWrite message
  | Emit "socket_id list" event

text \<open>The payload of \<open>sendMessage\<close>: a missing field is \<open>None\<close>; a timestamp is a number.\<close>

record send_payload =
  p_recipient :: "ident option"
  p_content :: "string option"
  p_timestamp :: "time option"

definition server_start :: "database \<Rightarrow> server" where
  "server_start d =
     \<lparr> onlineUsers = Map.empty, userSockets = Map.empty, userRooms = Map.empty,
       sockets = [], socketRooms = (\<lambda>_. {}), db = d \<rparr>"

text \<open>\<open>socket.broadcast.emit\<close>: every connected socket but the sender.\<close>

definition broadcast_from :: "server \<Rightarrow> socket_id \<Rightarrow> socket_id list" where
  "broadcast_from st sid = filter (\<lambda>s. s \<noteq> sid) (sockets st)"

text \<open>\<open>io.to(roomId)\<close>: every connected socket that has joined the room, looked up when
  the event is emitted.\<close>

definition in_room :: "server \<Rightarrow> room \<Rightarrow> socket_id list" where
  "in_room st r = filter (\<lambda>s. r \<in> socketRooms st s) (sockets st)"

text \<open>\<open>io.on('connection')\<close>: socket.io has accepted the socket (it is connected and in
  the room named by its own id); the handler records it in the three maps, overwriting
  what was there for the user, and tells the others.\<close>

definition on_connection :: "server \<Rightarrow> socket \<Rightarrow> server \<times> effect list" where
  "on_connection st sock =
     (let sid = sock_id sock; userId = sock_userId sock;
          st1 = st\<lparr> sockets := sockets st @ [sid],
                    socketRooms := (socketRooms st)(sid := {sid}) \<rparr>;
          st2 = st1\<lparr> onlineUsers := (onlineUsers st1)(userId \<mapsto> sid),
                     userSockets := (userSockets st1)(sid \<mapsto> userId),
                     userRooms := (userRooms st1)(userId \<mapsto> {}) \<rparr>
      in (st2, [Emit (broadcast_from st2 sid) (UserOnline userId)]))"

definition on_joinRoom :: "server \<Rightarrow> socket \<Rightarrow> room \<Rightarrow> server" where
  "on_joinRoom st sock roomId =
     (let sid = sock_id sock; userId = sock_userId sock;
          st1 = st\<lparr> socketRooms := (socketRooms st)(sid := insert roomId (socketRooms st sid)) \<rparr>
      in (case userRooms st1 userId of
            None \<Rightarrow> st1
          | Some rooms \<Rightarrow> st1\<lparr> userRooms := (userRooms st1)(userId \<mapsto> insert roomId rooms) \<rparr>))"

definition on_leaveRoom :: "server \<Rightarrow> socket \<Rightarrow> room \<Rightarrow> server" where
  "on_leaveRoom st sock roomId =
     (let sid = sock_id sock; userId = sock_userId sock;
          st1 = st\<lparr> socketRooms := (socketRooms st)(sid := socketRooms st sid - {roomId}) \<rparr>
      in (case userRooms st1 userId of
            None \<Rightarrow> st1
          | Some rooms \<Rightarrow> st1\<lparr> userRooms := (userRooms st1)(userId \<mapsto> rooms - {roomId}) \<rparr>))"

text \<open>The object \<open>sendMessage\<close> hands to \<open>Message.create\<close>; \<open>timestamp || new Date()\<close>
  takes the client's timestamp unless it is missing or falsy (the number 0).\<close>

definition send_doc :: "time \<Rightarrow> ident \<Rightarrow> send_payload \<Rightarrow> message_doc" where
  "send_doc now userId p =
     \<lparr> doc_sender = Some userId,
       doc_recipient = p_recipient p,
       doc_content = p_content p,
       doc_createdAt = Some (case p_timestamp p of
                               None \<Rightarrow> now
                             | Some t \<Rightarrow> if t \<noteq> 0 then t else now),
       doc_read = Some False \<rparr>"

text \<open>\<open>message.populate('sender recipient')\<close> followed by the reads of \<open>message.sender._id\<close>
  and \<open>message.recipient._id\<close>: a reference to a user that is not stored is populated with
  \<open>null\<close>, and reading \<open>_id\<close> of it throws.\<close>

definition populate_ids :: "database \<Rightarrow> message \<Rightarrow> error + (ident \<times> ident)" where
  "populate_ids d m =
     (case User_findById d (sender m) of
        Inl e \<Rightarrow> Inl e
      | Inr su \<Rightarrow>
          (case User_findById d (recipient m) of
             Inl e \<Rightarrow> Inl e
           | Inr ru \<Rightarrow>
               (case su of
                  None \<Rightarrow> Inl TypeError
                | Some s \<Rightarrow>
                    (case ru of
                       None \<Rightarrow> Inl TypeError
                     | Some r \<Rightarrow> Inr (uid s, uid r)))))"

definition messageData :: "message \<Rightarrow> ident \<Rightarrow> ident \<Rightarrow> message_data" where
  "messageData m s r =
     \<lparr> d_id = mid m, d_sender = s, d_recipient = r, d_content = content m,
       d_createdAt = createdAt m, d_read = read m, d_updatedAt = updatedAt m \<rparr>"

text \<open>
  \<open>socket.on('sendMessage')\<close>. The steps of the \<open>try\<close> block in order: \<open>content.substring\<close>
  (a \<open>TypeError\<close> when there is no content), \<open>Message.create\<close>, \<open>populate\<close>,
  \<open>createRoomId\<close>, the emission to the room, the confirmation to the sender. Whatever is
  thrown is caught and reported to the sending socket as \<open>messageError\<close>.
\<close>

definition sendMessage ::
  "server \<Rightarrow> time \<Rightarrow> socket \<Rightarrow> send_payload \<Rightarrow> server \<times> effect list" where
  "sendMessage st now sock p =
     (let sid = sock_id sock; userId = sock_userId sock in
      (case p_content p of
         None \<Rightarrow> (st, [Emit [sid] (MessageError TypeError)])
       | Some c \<Rightarrow>
           (case Message_create (db st) now (send_doc now userId p) of
              Inl e \<Rightarrow> (st, [Emit [sid] (MessageError e)])
            | Inr (m, d') \<Rightarrow>
                (let st' = st\<lparr> db := d' \<rparr> in
                 (case populate_ids d' m of
                    Inl e \<Rightarrow> (st', [DbWrite m, Emit [sid] (MessageError e)])
                  | Inr (s, r) \<Rightarrow>
                      (case createRoomId (Some userId) (p_recipient p) of
                         Inl e \<Rightarrow> (st', [DbWrite m, Emit [sid] (MessageError e)])
                       | Inr roomId \<Rightarrow>
                           (st', [DbWrite m,
                                  Emit (in_room st' roomId) (NewMessage (messageData m s r)),
                                  Emit [sid] (MessageSent (messageData m s r))])))))))"

text \<open>\<open>socket.on('disconnect')\<close>: socket.io has already removed the socket from its rooms
  and from the connected sockets; the handler deletes the user's entries and tells the
  others.\<close>

definition on_disconnect :: "server \<Rightarrow> socket \<Rightarrow> server \<times> effect list" where
  "on_disconnect st sock =
     (let sid = sock_id sock; userId = sock_userId sock;
          st1 = st\<lparr> sockets := removeAll sid (sockets st),
                    socketRooms := (socketRooms st)(sid := {}) \<rparr>;
          st2 = st1\<lparr> onlineUsers := (onlineUsers st1)(userId := None),
                     userSockets := (userSockets st1)(sid := None),
                     userRooms := (userRooms st1)(userId := None) \<rparr>
      in (st2, [Emit (broadcast_from st2 sid) (UserOffline userId)]))"

definition isUserOnline :: "server \<Rightarrow> ident \<Rightarrow> bool" where
  "isUserOnline st userId = (onlineUsers st userId \<noteq> None)"

definition getSocketId :: "server \<Rightarrow> ident \<Rightarrow> socket_id option" where
  "getSocketId st userId = onlineUsers st userId"

section \<open>The chat routes\<close>

text \<open>
  Each route runs behind the \<open>auth\<close> middleware; \<open>userId\<close> below is the \<open>req.userId\<close> it
  sets. A route returns its response and the store it leaves. Message ids in a request are
  well-formed ids.
\<close>

datatype 'a response = Json nat 'a | Failure nat string

text \<open>\<open>String.prototype.trim\<close>: the white space and line terminators among the code
  units below 256.\<close>

definition is_space :: "char \<Rightarrow> bool" where
  "is_space c = (c \<in> {CHR 0x09, CHR 0x0A, CHR 0x0B, CHR 0x0C, CHR 0x0D, CHR 0x20, CHR 0xA0})"

definition trim :: "string \<Rightarrow> string" where
  "trim s = rev (dropWhile is_space (rev (dropWhile is_space s)))"

text \<open>The body of \<open>POST /api/chat/send\<close>.\<close>

record send_body =
  b_recipientId :: "ident option"
  b_content :: "string option"

text \<open>\<open>currentUser.connections.some(conn => conn.toString() === id)\<close>.\<close>

definition isConnected :: "user \<Rightarrow> ident option \<Rightarrow> bool" where
  "isConnected currentUser i = list_ex (\<lambda>conn. Some conn = i) (connections currentUser)"

text \<open>\<open>POST /api/chat/send\<close>.\<close>

definition post_send ::
  "database \<Rightarrow> time \<Rightarrow> ident \<Rightarrow> send_body \<Rightarrow> message response \<times> database" where
  "post_send d now userId body =
     (case b_content body of
        None \<Rightarrow> (Failure 400 ''Message content is required'', d)
      | Some c \<Rightarrow>
          if c = [] \<or> trim c = [] then (Failure 400 ''Message content is required'', d)
          else
            (case User_findById d userId of
               Inl e \<Rightarrow> (Failure 500 ''Error sending message'', d)
             | Inr None \<Rightarrow> (Failure 500 ''Error sending message'', d)
             | Inr (Some currentUser) \<Rightarrow>
                 if \<not> isConnected currentUser (b_recipientId body)
                 then (Failure 403 ''You can only send messages to connected users'', d)
                 else
                   (case Message_create d now
                           \<lparr> doc_sender = Some userId,
                             doc_recipient = b_recipientId body,
                             doc_content = Some (trim c),
                             doc_createdAt = None,
                             doc_read = None \<rparr> of
                      Inl e \<Rightarrow> (Failure 500 ''Error sending message'', d)
                    | Inr (m, d') \<Rightarrow> (Json 201 m, d'))))"

text \<open>The update of \<open>Message.updateMany\<close> in the history route: every unread message from
  the partner to the caller becomes read, stamped with the current time.\<close>

definition mark_read_from :: "time \<Rightarrow> ident \<Rightarrow> ident \<Rightarrow> message \<Rightarrow> message" where
  "mark_read_from now partner userId m =
     (if unread_from partner userId m
      then m\<lparr> read := True, readAt := Some now, updatedAt := now \<rparr>
      else m)"

definition page_bound :: nat where
  "page_bound = 100"

text \<open>\<open>GET /api/chat/messages/:userId\<close>; \<open>partner\<close> is the route parameter.\<close>

definition get_messages ::
  "database \<Rightarrow> time \<Rightarrow> ident \<Rightarrow> ident \<Rightarrow> message list response \<times> database" where
  "get_messages d now userId partner =
     (case User_findById d userId of
        Inl e \<Rightarrow> (Failure 500 ''Error fetching messages'', d)
      | Inr None \<Rightarrow> (Failure 500 ''Error fetching messages'', d)
      | Inr (Some currentUser) \<Rightarrow>
          if \<not> isConnected currentUser (Some partner)
          then (Failure 403 ''You can only chat with connected users'', d)
          else
            (let found = take page_bound (oldest_first (filter (between userId partner) (messages d)));
                 d' = d\<lparr> messages := map (mark_read_from now partner userId) (messages d) \<rparr>
             in (Json 200 found, d')))"

text \<open>\<open>GET /api/chat/unread-count\<close>.\<close>

definition get_unread_count :: "database \<Rightarrow> ident \<Rightarrow> nat response" where
  "get_unread_count d userId =
     (if \<not> available d then Failure 500 ''Error fetching unread count''
      else Json 200 (length (filter (\<lambda>m. recipient m = userId \<and> \<not> read m) (messages d))))"

text \<open>\<open>PUT /api/chat/mark-read/:messageId\<close>.\<close>

definition put_mark_read ::
  "database \<Rightarrow> time \<Rightarrow> ident \<Rightarrow> nat \<Rightarrow> message response \<times> database" where
  "put_mark_read d now userId messageId =
     (case Message_findById d messageId of
        Inl e \<Rightarrow> (Failure 500 ''Error marking message as read'', d)
      | Inr None \<Rightarrow> (Failure 404 ''Message not found'', d)
      | Inr (Some m) \<Rightarrow>
          if recipient m \<noteq> userId then (Failure 403 ''Not authorized'', d)
          else
            (case Message_save d now (m\<lparr> read := True, readAt := Some now \<rparr>) of
               Inl e \<Rightarrow> (Failure 500 ''Error marking message as read'', d)
             | Inr (m', d') \<Rightarrow> (Json 200 m', d')))"

text \<open>A JavaScript \<open>Set\<close> of strings, as the list of its members in insertion order.\<close>

definition set_add :: "'a list \<Rightarrow> 'a \<Rightarrow> 'a list" where
  "set_add s x = (if x \<in> set s then s else s @ [x])"

text \<open>The loop that collects the conversation partners.\<close>

definition add_partners :: "ident \<Rightarrow> ident list \<Rightarrow> message \<Rightarrow> ident list" where
  "add_partners userId s msg =
     (let s1 = (if sender msg \<noteq> userId then set_add s (sender msg) else s)
      in (if recipient msg \<noteq> userId then set_add s1 (recipient msg) else s1))"

definition conversationPartners :: "ident \<Rightarrow> message list \<Rightarrow> ident list" where
  "conversationPartners userId msgs = foldl (add_partners userId) [] msgs"

text \<open>An entry of the conversation list. \<open>partner\<close> is the partner's user document, absent
  when no such user is stored; \<open>partnerId\<close> is the member of the set the entry was computed
  for, which is the \<open>_id\<close> of that document.\<close>

record conversation =
  partnerId :: ident
  partner :: "user option"
  lastMessage :: "message option"
  unreadCount :: nat

definition findOne_newest :: "message list \<Rightarrow> message option" where
  "findOne_newest ms = (case newest_first ms of [] \<Rightarrow> None | m # _ \<Rightarrow> Some m)"

definition conversation_of :: "database \<Rightarrow> ident \<Rightarrow> ident \<Rightarrow> conversation" where
  "conversation_of d userId p =
     \<lparr> partnerId = p,
       partner = find (\<lambda>u. uid u = p) (users d),
       lastMessage = findOne_newest (filter (between userId p) (messages d)),
       unreadCount = length (filter (unread_from p userId) (messages d)) \<rparr>"

text \<open>The time the list is sorted by: the creation time of the last message, the epoch
  when there is none.\<close>

definition last_time :: "conversation \<Rightarrow> time" where
  "last_time c = (case lastMessage c of Some m \<Rightarrow> createdAt m | None \<Rightarrow> 0)"

text \<open>\<open>GET /api/chat/conversations\<close>; the final sort, by \<open>timeB - timeA\<close>, is stable.\<close>

definition get_conversations :: "database \<Rightarrow> ident \<Rightarrow> conversation list response" where
  "get_conversations d userId =
     (if \<not> available d then Failure 500 ''Error fetching conversations''
      else
        (let msgs = newest_first (filter (involves userId) (messages d));
             partners = conversationPartners userId msgs;
             conversations = map (conversation_of d userId) partners
         in Json 200 (sort_key (\<lambda>c. - last_time c) conversations)))"

section \<open>Example states\<close>

text \<open>Two stored users, in one store not connected to each other and in the other
  connected, and a server on which each of them has one socket in their common room.\<close>

definition strangers_db :: database where
  "strangers_db =
     \<lparr> available = True, messages = [],
       users = [\<lparr> uid = ''a'', connections = [] \<rparr>, \<lparr> uid = ''b'', connections = [] \<rparr>],
       nextId = 0 \<rparr>"

definition connected_db :: database where
  "connected_db =
     \<lparr> available = True, messages = [],
       users = [\<lparr> uid = ''a'', connections = [''b''] \<rparr>, \<lparr> uid = ''b'', connections = [''a''] \<rparr>],
       nextId = 0 \<rparr>"

definition sockA :: socket where
  "sockA = \<lparr> sock_id = ''h1'', sock_userId = ''a'' \<rparr>"

definition sockB :: socket where
  "sockB = \<lparr> sock_id = ''h2'', sock_userId = ''b'' \<rparr>"

definition two_in_room :: "database \<Rightarrow> server" where
  "two_in_room d =
     (let st1 = fst (on_connection (server_start d) sockA);
          st2 = fst (on_connection st1 sockB);
          st3 = on_joinRoom st2 sockA ''chat_a_b''
      in on_joinRoom st3 sockB ''chat_a_b'')"

text \<open>The store of the two unconnected users after \<open>b\<close> has sent \<open>a\<close> one message over
  the socket at time 10.\<close>

definition inbox_db :: database where
  "inbox_db =
     strangers_db
       \<lparr> messages := [\<lparr> mid = 0, sender = ''b'', recipient = ''a'', content = ''hi'',
                        read = False, readAt = None, createdAt = 10, updatedAt = 10 \<rparr>],
         nextId := 1 \<rparr>"


text \<open>A store with three users in which \<open>a\<close> has exchanged messages with \<open>b\<close> and with
  \<open>c\<close>, and has sent one to itself.\<close>

definition three_db :: database where
  "three_db =
     \<lparr> available = True,
       messages =
         [\<lparr> mid = 0, sender = ''b'', recipient = ''a'', content = ''one'',
            read = False, readAt = None, createdAt = 10, updatedAt = 10 \<rparr>,
          \<lparr> mid = 1, sender = ''a'', recipient = ''c'', content = ''two'',
            read = False, readAt = None, createdAt = 30, updatedAt = 30 \<rparr>,
          \<lparr> mid = 2, sender = ''c'', recipient = ''a'', content = ''three'',
            read = False, readAt = None, createdAt = 20, updatedAt = 20 \<rparr>,
          \<lparr> mid = 3, sender = ''a'', recipient = ''a'', content = ''note'',
            read = False, readAt = None, createdAt = 40, updatedAt = 40 \<rparr>],
       users = [\<lparr> uid = ''a'', connections = [''b'', ''c''] \<rparr>,
                \<lparr> uid = ''b'', connections = [''a''] \<rparr>,
                \<lparr> uid = ''c'', connections = [''a''] \<rparr>],
       nextId = 4 \<rparr>"

section \<open>Unfolding rules\<close>

lemmas example_defs = strangers_db_def connected_db_def sockA_def sockB_def two_in_room_def
  server_start_def on_connection_def on_joinRoom_def broadcast_from_def in_room_def

lemmas send_defs = sendMessage_def Message_create_def validate_doc_def maxlength_def
  send_doc_def populate_ids_def User_findById_def createRoomId_def js_sort2_def messageData_def

lemmas post_defs = post_send_def Message_create_def validate_doc_def maxlength_def
  User_findById_def isConnected_def trim_def is_space_def

section \<open>Theorems about the room router\<close>

text \<open>
  C5. For two different identities the room id does not depend on the order of the pair,
  and it is \<open>chat_\<close>, the lexicographically smaller identity, \<open>_\<close>, the larger one.
\<close>

theorem createRoomId_symmetric:
  "a \<noteq> b \<Longrightarrow>
     createRoomId (Some a) (Some b) = createRoomId (Some b) (Some a) \<and>
     createRoomId (Some a) (Some b) = Inr (''chat_'' @ min a b @ ''_'' @ max a b)"
  by (auto simp add: createRoomId_def js_sort2_def min_def max_def)

theorem createRoomId_symmetric_witness:
  "''b1'' \<noteq> ''a2'' \<and>
   createRoomId (Some ''b1'') (Some ''a2'') = createRoomId (Some ''a2'') (Some ''b1'') \<and>
   createRoomId (Some ''b1'') (Some ''a2'') = Inr ''chat_a2_b1''"
proof -
  have ne: "''b1'' \<noteq> ''a2''" by simp
  have "min ''b1'' ''a2'' = ''a2''" "max ''b1'' ''a2'' = ''b1''"
    by (simp_all add: min_def max_def)
  with createRoomId_symmetric [OF ne] ne show ?thesis by auto
qed

text \<open>
  C6. The claim is that the room id of a pair \<open>(A, A)\<close> fails. \<open>createRoomId\<close> has no such
  check: for the pair \<open>(a, a)\<close> it returns the room id \<open>chat_a_a\<close>.
\<close>

theorem createRoomId_self_counterexample:
  "\<not> isl (createRoomId (Some ''a'') (Some ''a'')) \<and>
   createRoomId (Some ''a'') (Some ''a'') = Inr ''chat_a_a''"
  by (simp add: createRoomId_def js_sort2_def)

text \<open>
  C6, as the code has it. For every identity \<open>A\<close> the room id of the pair \<open>(A, A)\<close> is
  computed without error and is \<open>chat_A_A\<close>.
\<close>

theorem createRoomId_self:
  "createRoomId (Some a) (Some a) = Inr (''chat_'' @ a @ ''_'' @ a)"
  by (simp add: createRoomId_def js_sort2_def)

section \<open>Theorems about presence\<close>

text \<open>
  C2. The claim is that the disconnect of a superseded socket leaves the newer entry in
  place and is not announced. Here user \<open>b\<close> connects on \<open>h2\<close> and again on \<open>h3\<close>; the registry
  reports \<open>h3\<close>. When \<open>h2\<close> disconnects, the entry of \<open>b\<close> is gone although \<open>h3\<close> is live, and
  \<open>userOffline\<close> for \<open>b\<close> goes to the other sockets, \<open>h3\<close> among them.
\<close>

theorem stale_disconnect_counterexample:
  "getSocketId
     (fst (on_connection (fst (on_connection (server_start strangers_db) sockB))
             \<lparr> sock_id = ''h3'', sock_userId = ''b'' \<rparr>)) ''b'' = Some ''h3'' \<and>
   getSocketId
     (fst (on_disconnect
        (fst (on_connection (fst (on_connection (server_start strangers_db) sockB))
                \<lparr> sock_id = ''h3'', sock_userId = ''b'' \<rparr>)) sockB)) ''b'' = None \<and>
   snd (on_disconnect
        (fst (on_connection
                (fst (on_connection (fst (on_connection (server_start strangers_db) sockA)) sockB))
                \<lparr> sock_id = ''h3'', sock_userId = ''b'' \<rparr>)) sockB)
     = [Emit [''h1'', ''h3''] (UserOffline ''b'')]"
  by (simp add: example_defs on_disconnect_def getSocketId_def Let_def)

lemma filter_other_sockets:
  "filter ((\<noteq>) h) xs = filter (\<lambda>s. s \<noteq> h) xs"
  "filter (\<lambda>x. h \<noteq> x \<and> x \<noteq> h) xs = filter (\<lambda>s. s \<noteq> h) xs"
  by (rule filter_cong, simp, blast)+

text \<open>
  C2, as the code has it. For every identity \<open>u\<close> and handles \<open>h1 \<noteq> h2\<close>: after \<open>h1\<close> and then
  \<open>h2\<close> have connected for \<open>u\<close>, the registry reports \<open>h2\<close>; the disconnect of \<open>h1\<close> removes the
  entry of \<open>u\<close> whatever handle it holds, so \<open>u\<close> is reported offline, and \<open>userOffline\<close> for \<open>u\<close>
  is sent to every other connected socket: the sockets that were connected before, without
  \<open>h1\<close>, and \<open>h2\<close>.
\<close>

theorem disconnect_unconditional:
  assumes "h1 \<noteq> h2"
  shows "getSocketId (fst (on_connection (fst (on_connection st \<lparr> sock_id = h1, sock_userId = u \<rparr>))
                             \<lparr> sock_id = h2, sock_userId = u \<rparr>)) u = Some h2 \<and>
         getSocketId (fst (on_disconnect
                       (fst (on_connection (fst (on_connection st \<lparr> sock_id = h1, sock_userId = u \<rparr>))
                             \<lparr> sock_id = h2, sock_userId = u \<rparr>))
                       \<lparr> sock_id = h1, sock_userId = u \<rparr>)) u = None \<and>
         \<not> isUserOnline (fst (on_disconnect
                       (fst (on_connection (fst (on_connection st \<lparr> sock_id = h1, sock_userId = u \<rparr>))
                             \<lparr> sock_id = h2, sock_userId = u \<rparr>))
                       \<lparr> sock_id = h1, sock_userId = u \<rparr>)) u \<and>
         sockets (fst (on_disconnect
                       (fst (on_connection (fst (on_connection st \<lparr> sock_id = h1, sock_userId = u \<rparr>))
                             \<lparr> sock_id = h2, sock_userId = u \<rparr>))
                       \<lparr> sock_id = h1, sock_userId = u \<rparr>))
           = filter (\<lambda>s. s \<noteq> h1) (sockets st) @ [h2] \<and>
         snd (on_disconnect
                       (fst (on_connection (fst (on_connection st \<lparr> sock_id = h1, sock_userId = u \<rparr>))
                             \<lparr> sock_id = h2, sock_userId = u \<rparr>))
                       \<lparr> sock_id = h1, sock_userId = u \<rparr>)
           = [Emit (filter (\<lambda>s. s \<noteq> h1) (sockets st) @ [h2]) (UserOffline u)]"
  using assms
  by (simp add: on_connection_def on_disconnect_def getSocketId_def isUserOnline_def
      broadcast_from_def removeAll_filter_not_eq filter_other_sockets Let_def)

theorem disconnect_unconditional_witness:
  "''h2'' \<noteq> ''h3'' \<and>
   getSocketId (fst (on_connection (fst (on_connection (fst (on_connection (server_start connected_db) sockA))
                                          \<lparr> sock_id = ''h2'', sock_userId = ''b'' \<rparr>))
                       \<lparr> sock_id = ''h3'', sock_userId = ''b'' \<rparr>)) ''b'' = Some ''h3'' \<and>
   getSocketId (fst (on_disconnect
                 (fst (on_connection (fst (on_connection (fst (on_connection (server_start connected_db) sockA))
                                          \<lparr> sock_id = ''h2'', sock_userId = ''b'' \<rparr>))
                       \<lparr> sock_id = ''h3'', sock_userId = ''b'' \<rparr>))
                 \<lparr> sock_id = ''h2'', sock_userId = ''b'' \<rparr>)) ''b'' = None \<and>
   snd (on_disconnect
                 (fst (on_connection (fst (on_connection (fst (on_connection (server_start connected_db) sockA))
                                          \<lparr> sock_id = ''h2'', sock_userId = ''b'' \<rparr>))
                       \<lparr> sock_id = ''h3'', sock_userId = ''b'' \<rparr>))
                 \<lparr> sock_id = ''h2'', sock_userId = ''b'' \<rparr>)
     = [Emit [''h1'', ''h3''] (UserOffline ''b'')]"
proof -
  have ne: "''h2'' \<noteq> ''h3''" by simp
  have sk: "filter (\<lambda>s. s \<noteq> ''h2'') (sockets (fst (on_connection (server_start connected_db) sockA))) @ [''h3'']
            = [''h1'', ''h3'']"
    by (simp add: example_defs Let_def)
  from disconnect_unconditional [OF ne, of "fst (on_connection (server_start connected_db) sockA)" "''b''"]
  show ?thesis unfolding sk using ne by blast
qed

section \<open>Theorems about the two send paths\<close>

text \<open>What \<open>POST /api/chat/send\<close> does before it writes.\<close>

lemma post_send_not_connected:
  assumes "post_send d now a body = (r, d')"
    and "find (\<lambda>u. uid u = a) (users d) = Some cu"
    and "\<forall>x. b_recipientId body = Some x \<longrightarrow> x \<notin> set (connections cu)"
  shows "d' = d \<and> (\<exists>k msg. r = Failure k msg)"
  using assms
  by (auto simp add: post_send_def User_findById_def isConnected_def list_ex_iff
      split: option.splits if_splits sum.splits)

lemma post_send_blank:
  assumes "b_content body = Some c" and "\<forall>x \<in> set c. is_space x"
  shows "post_send d now a body = (Failure 400 ''Message content is required'', d)"
proof -
  have h: "dropWhile is_space c = []" using assms(2) by (induction c) auto
  have "trim c = []" unfolding trim_def h by simp
  with assms(1) show ?thesis by (simp add: post_send_def)
qed

lemma post_send_too_long:
  assumes "b_content body = Some c" and "length (trim c) > maxlength"
  shows "\<exists>k msg. post_send d now a body = (Failure k msg, d)"
  using assms
  by (auto simp add: post_send_def Message_create_def validate_doc_def
      split: option.splits if_splits sum.splits)

lemma post_send_max_length:
  assumes "b_content body = Some c" and "length (trim c) = maxlength"
    and "available d"
    and "find (\<lambda>u. uid u = a) (users d) = Some cu"
    and "b_recipientId body = Some r" and "r \<in> set (connections cu)"
  shows "\<exists>m d'. post_send d now a body = (Json 201 m, d') \<and> content m = trim c \<and> \<not> read m \<and>
           messages d' = messages d @ [m]"
proof -
  have "trim c \<noteq> []" using assms(2) by (auto simp add: maxlength_def)
  moreover from this have "c \<noteq> []" by (auto simp add: trim_def)
  ultimately show ?thesis using assms
    by (auto simp add: post_send_def Message_create_def validate_doc_def User_findById_def
        isConnected_def list_ex_iff Let_def)
qed

text \<open>What the schema validator does for \<open>sendMessage\<close>.\<close>

lemma sendMessage_empty_content:
  assumes "p_content p = Some []"
  shows "sendMessage st now sock p = (st, [Emit [sock_id sock] (MessageError ValidationError)])"
  using assms by (simp add: sendMessage_def Message_create_def validate_doc_def send_doc_def Let_def)

lemma sendMessage_too_long:
  assumes "p_content p = Some c" and "length c > maxlength"
  shows "sendMessage st now sock p = (st, [Emit [sock_id sock] (MessageError ValidationError)])"
  using assms by (simp add: sendMessage_def Message_create_def validate_doc_def send_doc_def Let_def)

lemma sendMessage_max_length:
  assumes "p_content p = Some c" and "length c = maxlength" and "p_recipient p = Some r"
    and "available (db st)"
    and "find (\<lambda>u. uid u = sock_userId sock) (users (db st)) = Some su"
    and "find (\<lambda>u. uid u = r) (users (db st)) = Some ru"
  shows "\<exists>m st' rs md. sendMessage st now sock p =
            (st', [DbWrite m, Emit rs (NewMessage md), Emit [sock_id sock] (MessageSent md)]) \<and>
          content m = c \<and> messages (db st') = messages (db st) @ [m]"
proof -
  have "c \<noteq> []" using assms(2) by (auto simp add: maxlength_def)
  with assms show ?thesis by (simp add: send_defs Let_def)
qed

text \<open>
  C1. Users \<open>a\<close> and \<open>b\<close> are not connected, and each has a socket in the room \<open>chat_a_b\<close>.
  \<open>sendMessage\<close> from \<open>a\<close> to \<open>b\<close> never looks at the connections: the message is stored and
  emitted to both sockets, and confirmed to the sender. \<open>POST /api/chat/send\<close> with the same
  sender, recipient and content answers 403 and leaves the store as it was.
\<close>

theorem live_send_unconnected:
  "sendMessage (two_in_room strangers_db) 10 sockA
     \<lparr> p_recipient = Some ''b'', p_content = Some ''hi'', p_timestamp = None \<rparr>
   = ((two_in_room strangers_db)
        \<lparr> db := strangers_db
            \<lparr> messages := [\<lparr> mid = 0, sender = ''a'', recipient = ''b'', content = ''hi'',
                             read = False, readAt = None, createdAt = 10, updatedAt = 10 \<rparr>],
              nextId := 1 \<rparr> \<rparr>,
      [DbWrite \<lparr> mid = 0, sender = ''a'', recipient = ''b'', content = ''hi'',
                 read = False, readAt = None, createdAt = 10, updatedAt = 10 \<rparr>,
       Emit [''h1'', ''h2'']
         (NewMessage \<lparr> d_id = 0, d_sender = ''a'', d_recipient = ''b'', d_content = ''hi'',
                       d_createdAt = 10, d_read = False, d_updatedAt = 10 \<rparr>),
       Emit [''h1'']
         (MessageSent \<lparr> d_id = 0, d_sender = ''a'', d_recipient = ''b'', d_content = ''hi'',
                        d_createdAt = 10, d_read = False, d_updatedAt = 10 \<rparr>)]) \<and>
   post_send strangers_db 10 ''a'' \<lparr> b_recipientId = Some ''b'', b_content = Some ''hi'' \<rparr>
   = (Failure 403 ''You can only send messages to connected users'', strangers_db)"
  by (simp add: example_defs send_defs post_defs Let_def)

text \<open>
  C4. Users \<open>a\<close> and \<open>b\<close> are connected. \<open>sendMessage\<close> with a content of three spaces
  is not rejected: the schema only requires a non-empty string, so the message is stored,
  emitted to the room and confirmed. \<open>POST /api/chat/send\<close> with the same content answers
  400 and leaves the store as it was.
\<close>

theorem live_send_whitespace:
  "sendMessage (two_in_room connected_db) 10 sockA
     \<lparr> p_recipient = Some ''b'', p_content = Some ''   '', p_timestamp = None \<rparr>
   = ((two_in_room connected_db)
        \<lparr> db := connected_db
            \<lparr> messages := [\<lparr> mid = 0, sender = ''a'', recipient = ''b'', content = ''   '',
                             read = False, readAt = None, createdAt = 10, updatedAt = 10 \<rparr>],
              nextId := 1 \<rparr> \<rparr>,
      [DbWrite \<lparr> mid = 0, sender = ''a'', recipient = ''b'', content = ''   '',
                 read = False, readAt = None, createdAt = 10, updatedAt = 10 \<rparr>,
       Emit [''h1'', ''h2'']
         (NewMessage \<lparr> d_id = 0, d_sender = ''a'', d_recipient = ''b'', d_content = ''   '',
                       d_createdAt = 10, d_read = False, d_updatedAt = 10 \<rparr>),
       Emit [''h1'']
         (MessageSent \<lparr> d_id = 0, d_sender = ''a'', d_recipient = ''b'', d_content = ''   '',
                        d_createdAt = 10, d_read = False, d_updatedAt = 10 \<rparr>)]) \<and>
   post_send connected_db 10 ''a'' \<lparr> b_recipientId = Some ''b'', b_content = Some ''   '' \<rparr>
   = (Failure 400 ''Message content is required'', connected_db)"
  by (simp add: example_defs send_defs post_defs Let_def)

text \<open>The outcomes of \<open>sendMessage\<close>: nothing is written and one error goes to the sender,
  or the message is written and then either one error goes to the sender or the message is
  emitted to the room and confirmed.\<close>

lemma sendMessage_cases:
  assumes "sendMessage st now sock p = (st', out)"
  shows "(\<exists>e. st' = st \<and> out = [Emit [sock_id sock] (MessageError e)] \<and>
              (p_content p = None \<or>
               Message_create (db st) now (send_doc now (sock_userId sock) p) = Inl e))
       \<or> (\<exists>m d'. Message_create (db st) now (send_doc now (sock_userId sock) p) = Inr (m, d') \<and>
              st' = st\<lparr> db := d' \<rparr> \<and>
              ((\<exists>e. out = [DbWrite m, Emit [sock_id sock] (MessageError e)]) \<or>
               (\<exists>s r roomId. out = [DbWrite m,
                                Emit (in_room st' roomId) (NewMessage (messageData m s r)),
                                Emit [sock_id sock] (MessageSent (messageData m s r))])))"
  using assms
  by (auto simp add: sendMessage_def Let_def split: option.splits sum.splits prod.splits)

lemma Message_create_Inr:
  assumes "Message_create d now doc = Inr (m, d')"
  shows "messages d' = messages d @ [m] \<and> readAt m = None \<and>
         read m = (case doc_read doc of Some b \<Rightarrow> b | None \<Rightarrow> False) \<and>
         createdAt m = (case doc_createdAt doc of Some t \<Rightarrow> t | None \<Rightarrow> now) \<and>
         doc_content doc = Some (content m) \<and> available d"
  using assms
  by (auto simp add: Message_create_def validate_doc_def Let_def split: if_splits option.splits)

text \<open>A send with a valid document, a reachable store and both users stored goes through
  all of its steps.\<close>

lemma sendMessage_delivers:
  assumes "validate_doc (send_doc now (sock_userId sock) p)" and "available (db st)"
    and "p_recipient p = Some r"
    and "find (\<lambda>u. uid u = sock_userId sock) (users (db st)) = Some su"
    and "find (\<lambda>u. uid u = r) (users (db st)) = Some ru"
  shows "\<exists>m st' rs md. sendMessage st now sock p =
            (st', [DbWrite m, Emit rs (NewMessage md), Emit [sock_id sock] (MessageSent md)])"
  using assms
  by (auto simp add: send_defs Let_def split: option.splits)

text \<open>
  C3. Whatever \<open>sendMessage\<close> is called with: when a \<open>newMessage\<close> or \<open>messageSent\<close> event is
  emitted, the first thing the handler did was the write of that message, with \<open>read\<close> false,
  and the store has exactly that one record more; and when \<open>Message.create\<close> fails, the state
  is unchanged and the only effect is one \<open>messageError\<close> to the sending socket.
\<close>

theorem sendMessage_write_then_notify:
  assumes "sendMessage st now sock p = (st', out)"
  shows "(\<forall>i rs md. i < length out \<and>
             (out ! i = Emit rs (NewMessage md) \<or> out ! i = Emit rs (MessageSent md)) \<longrightarrow>
             (\<exists>m. 0 < i \<and> out ! 0 = DbWrite m \<and> d_id md = mid m \<and> \<not> read m \<and>
                  messages (db st') = messages (db st) @ [m]))
       \<and> (\<forall>e. Message_create (db st) now (send_doc now (sock_userId sock) p) = Inl e \<longrightarrow>
             st' = st \<and> (\<exists>e'. out = [Emit [sock_id sock] (MessageError e')]))"
proof (intro conjI allI impI)
  fix i rs md
  assume h: "i < length out \<and>
             (out ! i = Emit rs (NewMessage md) \<or> out ! i = Emit rs (MessageSent md))"
  from sendMessage_cases [OF assms] h
  obtain m d' s r roomId
    where c: "Message_create (db st) now (send_doc now (sock_userId sock) p) = Inr (m, d')"
    and st': "st' = st\<lparr> db := d' \<rparr>"
    and out: "out = [DbWrite m, Emit (in_room st' roomId) (NewMessage (messageData m s r)),
                     Emit [sock_id sock] (MessageSent (messageData m s r))]"
    by (auto simp add: nth_Cons split: nat.splits)
  from Message_create_Inr [OF c] have m: "messages d' = messages (db st) @ [m]" "\<not> read m"
    by (simp_all add: send_doc_def)
  from h out have "0 < i" "d_id md = mid m"
    by (auto simp add: nth_Cons messageData_def split: nat.splits)
  with m st' out
  show "\<exists>m. 0 < i \<and> out ! 0 = DbWrite m \<and> d_id md = mid m \<and> \<not> read m \<and>
                  messages (db st') = messages (db st) @ [m]"
    by simp
next
  fix e
  assume "Message_create (db st) now (send_doc now (sock_userId sock) p) = Inl e"
  with sendMessage_cases [OF assms]
  show "st' = st" by auto
next
  fix e
  assume "Message_create (db st) now (send_doc now (sock_userId sock) p) = Inl e"
  with sendMessage_cases [OF assms]
  show "\<exists>e'. out = [Emit [sock_id sock] (MessageError e')]" by auto
qed

text \<open>A send between the connected users with a client timestamp, and the same send when
  the store cannot be reached.\<close>

lemma hi_send:
  "sendMessage (two_in_room connected_db) 10 sockA
     \<lparr> p_recipient = Some ''b'', p_content = Some ''hi'', p_timestamp = Some 5 \<rparr>
   = ((two_in_room connected_db)
        \<lparr> db := connected_db
            \<lparr> messages := [\<lparr> mid = 0, sender = ''a'', recipient = ''b'', content = ''hi'',
                             read = False, readAt = None, createdAt = 5, updatedAt = 5 \<rparr>],
              nextId := 1 \<rparr> \<rparr>,
      [DbWrite \<lparr> mid = 0, sender = ''a'', recipient = ''b'', content = ''hi'',
                 read = False, readAt = None, createdAt = 5, updatedAt = 5 \<rparr>,
       Emit [''h1'', ''h2'']
         (NewMessage \<lparr> d_id = 0, d_sender = ''a'', d_recipient = ''b'', d_content = ''hi'',
                       d_createdAt = 5, d_read = False, d_updatedAt = 5 \<rparr>),
       Emit [''h1'']
         (MessageSent \<lparr> d_id = 0, d_sender = ''a'', d_recipient = ''b'', d_content = ''hi'',
                        d_createdAt = 5, d_read = False, d_updatedAt = 5 \<rparr>)])"
  by (simp add: example_defs send_defs Let_def)

lemma down_create:
  "Message_create (connected_db\<lparr> available := False \<rparr>) 10
     (send_doc 10 (sock_userId sockA)
        \<lparr> p_recipient = Some ''b'', p_content = Some ''hi'', p_timestamp = Some 5 \<rparr>) = Inl StoreError"
  by (simp add: example_defs send_defs)

theorem sendMessage_write_then_notify_witness:
  "snd (sendMessage (two_in_room connected_db) 10 sockA
          \<lparr> p_recipient = Some ''b'', p_content = Some ''hi'', p_timestamp = Some 5 \<rparr>) ! 1
     = Emit [''h1'', ''h2'']
         (NewMessage \<lparr> d_id = 0, d_sender = ''a'', d_recipient = ''b'', d_content = ''hi'',
                       d_createdAt = 5, d_read = False, d_updatedAt = 5 \<rparr>) \<and>
   (\<exists>m. snd (sendMessage (two_in_room connected_db) 10 sockA
                \<lparr> p_recipient = Some ''b'', p_content = Some ''hi'', p_timestamp = Some 5 \<rparr>) ! 0
           = DbWrite m \<and> mid m = 0 \<and> \<not> read m \<and>
         messages (db (fst (sendMessage (two_in_room connected_db) 10 sockA
                \<lparr> p_recipient = Some ''b'', p_content = Some ''hi'', p_timestamp = Some 5 \<rparr>)))
           = messages (db (two_in_room connected_db)) @ [m]) \<and>
   Message_create (connected_db\<lparr> available := False \<rparr>) 10
     (send_doc 10 (sock_userId sockA)
        \<lparr> p_recipient = Some ''b'', p_content = Some ''hi'', p_timestamp = Some 5 \<rparr>) = Inl StoreError \<and>
   fst (sendMessage (two_in_room (connected_db\<lparr> available := False \<rparr>)) 10 sockA
          \<lparr> p_recipient = Some ''b'', p_content = Some ''hi'', p_timestamp = Some 5 \<rparr>)
     = two_in_room (connected_db\<lparr> available := False \<rparr>) \<and>
   (\<exists>e'. snd (sendMessage (two_in_room (connected_db\<lparr> available := False \<rparr>)) 10 sockA
          \<lparr> p_recipient = Some ''b'', p_content = Some ''hi'', p_timestamp = Some 5 \<rparr>)
     = [Emit [''h1''] (MessageError e')])"
proof -
  let ?p = "\<lparr> p_recipient = Some ''b'', p_content = Some ''hi'', p_timestamp = Some 5 \<rparr>"
  let ?st = "two_in_room connected_db"
  let ?dn = "two_in_room (connected_db\<lparr> available := False \<rparr>)"
  let ?md = "\<lparr> d_id = 0, d_sender = ''a'', d_recipient = ''b'', d_content = ''hi'',
                       d_createdAt = 5, d_read = False, d_updatedAt = 5 \<rparr>"
  have e1: "sendMessage ?st 10 sockA ?p = (fst (sendMessage ?st 10 sockA ?p), snd (sendMessage ?st 10 sockA ?p))"
    by simp
  have e2: "sendMessage ?dn 10 sockA ?p = (fst (sendMessage ?dn 10 sockA ?p), snd (sendMessage ?dn 10 sockA ?p))"
    by simp
  have o1: "snd (sendMessage ?st 10 sockA ?p) ! 1 = Emit [''h1'', ''h2''] (NewMessage ?md)"
    and l1: "1 < length (snd (sendMessage ?st 10 sockA ?p))"
    by (simp_all add: hi_send)
  from sendMessage_write_then_notify [OF e1] o1 l1
  have a: "\<exists>m. snd (sendMessage ?st 10 sockA ?p) ! 0 = DbWrite m \<and> d_id ?md = mid m \<and> \<not> read m \<and>
         messages (db (fst (sendMessage ?st 10 sockA ?p))) = messages (db ?st) @ [m]"
    by blast
  have dbdn: "db ?dn = connected_db\<lparr> available := False \<rparr>" and sid: "sock_id sockA = ''h1''"
    by (simp_all add: example_defs Let_def)
  from sendMessage_write_then_notify [OF e2] down_create dbdn sid
  have b: "fst (sendMessage ?dn 10 sockA ?p) = ?dn \<and>
           (\<exists>e'. snd (sendMessage ?dn 10 sockA ?p) = [Emit [''h1''] (MessageError e')])"
    by simp
  from a b o1 down_create show ?thesis by auto
qed







text \<open>The history follows the client's timestamps: of two messages sent one after the other,
  the second carries the smaller timestamp and is listed first.\<close>

lemma history_in_client_order:
  "fst (get_messages
     (db (fst (sendMessage
        (fst (sendMessage (two_in_room connected_db) 10 sockA
                \<lparr> p_recipient = Some ''b'', p_content = Some ''first'', p_timestamp = Some 7 \<rparr>))
        11 sockA \<lparr> p_recipient = Some ''b'', p_content = Some ''second'', p_timestamp = Some 3 \<rparr>)))
     12 ''a'' ''b'')
   = Json 200
       [\<lparr> mid = 1, sender = ''a'', recipient = ''b'', content = ''second'',
          read = False, readAt = None, createdAt = 3, updatedAt = 3 \<rparr>,
        \<lparr> mid = 0, sender = ''a'', recipient = ''b'', content = ''first'',
          read = False, readAt = None, createdAt = 7, updatedAt = 7 \<rparr>]"
  by (simp add: example_defs send_defs Let_def get_messages_def isConnected_def between_def
      oldest_first_def page_bound_def)

section \<open>Theorems about the read state\<close>

lemma find_map_replace:
  assumes "find (\<lambda>x. mid x = i) ms = Some m" and "mid m' = i"
  shows "find (\<lambda>x. mid x = i) (map (\<lambda>x. if mid x = i then m' else x) ms) = Some m'"
  using assms by (induction ms) (auto split: if_splits)

lemma find_mid: "find (\<lambda>x. mid x = i) ms = Some m \<Longrightarrow> mid m = i \<and> m \<in> set ms"
  by (induction ms) (auto split: if_splits)

lemma put_mark_read_cases:
  assumes "put_mark_read d now c i = (r, d')"
  shows "(d' = d \<and> (\<exists>k msg. r = Failure k msg)) \<or>
         (\<exists>m. find (\<lambda>x. mid x = i) (messages d) = Some m \<and> recipient m = c \<and> available d \<and>
              r = Json 200 (m\<lparr> read := True, readAt := Some now, updatedAt := now \<rparr>) \<and>
              d' = d\<lparr> messages := map (\<lambda>x. if mid x = i
                                          then m\<lparr> read := True, readAt := Some now, updatedAt := now \<rparr>
                                          else x) (messages d) \<rparr>)"
  using assms
  by (auto simp add: put_mark_read_def Message_findById_def Message_save_def Let_def
      dest: find_mid split: if_splits option.splits)

text \<open>
  C10. \<open>PUT /api/chat/mark-read/:messageId\<close> for a caller \<open>c\<close> and a message id \<open>i\<close>, the store
  being reachable: when no message has the id the answer is 404 and nothing changes; when
  the message's recipient is not \<open>c\<close> the answer is 403 and nothing changes; when it is \<open>c\<close>
  the answer is 200 and the stored message has \<open>read\<close> true and \<open>readAt\<close> the current time.
  In every case a success means the caller is the recipient of the message, and no stored
  message goes from read to unread.
\<close>

theorem put_mark_read_recipient_only:
  "(available d \<and> find (\<lambda>x. mid x = i) (messages d) = None \<longrightarrow>
      put_mark_read d now c i = (Failure 404 ''Message not found'', d))
   \<and> (\<forall>m. available d \<and> find (\<lambda>x. mid x = i) (messages d) = Some m \<and> recipient m \<noteq> c \<longrightarrow>
        put_mark_read d now c i = (Failure 403 ''Not authorized'', d))
   \<and> (\<forall>m. available d \<and> find (\<lambda>x. mid x = i) (messages d) = Some m \<and> recipient m = c \<longrightarrow>
        (\<exists>d'. put_mark_read d now c i =
                (Json 200 (m\<lparr> read := True, readAt := Some now, updatedAt := now \<rparr>), d') \<and>
              find (\<lambda>x. mid x = i) (messages d') =
                Some (m\<lparr> read := True, readAt := Some now, updatedAt := now \<rparr>)))
   \<and> (\<forall>k body d'. put_mark_read d now c i = (Json k body, d') \<longrightarrow>
        (\<exists>m. find (\<lambda>x. mid x = i) (messages d) = Some m \<and> recipient m = c))
   \<and> (\<forall>r d'. put_mark_read d now c i = (r, d') \<longrightarrow>
        length (messages d') = length (messages d) \<and>
        (\<forall>n < length (messages d). read (messages d ! n) \<longrightarrow> read (messages d' ! n)))"
proof (intro conjI allI impI)
  assume "available d \<and> find (\<lambda>x. mid x = i) (messages d) = None"
  then show "put_mark_read d now c i = (Failure 404 ''Message not found'', d)"
    by (simp add: put_mark_read_def Message_findById_def)
next
  fix m assume "available d \<and> find (\<lambda>x. mid x = i) (messages d) = Some m \<and> recipient m \<noteq> c"
  then show "put_mark_read d now c i = (Failure 403 ''Not authorized'', d)"
    by (simp add: put_mark_read_def Message_findById_def)
next
  fix m assume h: "available d \<and> find (\<lambda>x. mid x = i) (messages d) = Some m \<and> recipient m = c"
  let ?m' = "m\<lparr> read := True, readAt := Some now, updatedAt := now \<rparr>"
  from h have mi: "mid m = i" by (auto dest: find_mid)
  let ?d' = "d\<lparr> messages := map (\<lambda>x. if mid x = i then ?m' else x) (messages d) \<rparr>"
  from h mi have "put_mark_read d now c i = (Json 200 ?m', ?d')"
    by (simp add: put_mark_read_def Message_findById_def Message_save_def Let_def)
  moreover from h mi have "find (\<lambda>x. mid x = i) (messages ?d') = Some ?m'"
    by (simp add: find_map_replace)
  ultimately show "\<exists>d'. put_mark_read d now c i = (Json 200 ?m', d') \<and>
                  find (\<lambda>x. mid x = i) (messages d') = Some ?m'"
    by blast
next
  fix k body d' assume "put_mark_read d now c i = (Json k body, d')"
  from put_mark_read_cases [OF this]
  show "\<exists>m. find (\<lambda>x. mid x = i) (messages d) = Some m \<and> recipient m = c" by auto
next
  fix r d' assume "put_mark_read d now c i = (r, d')"
  from put_mark_read_cases [OF this]
  show "length (messages d') = length (messages d)" by auto
next
  fix r d' n assume e: "put_mark_read d now c i = (r, d')"
    and n: "n < length (messages d)" and rd: "read (messages d ! n)"
  from put_mark_read_cases [OF e] n rd
  show "read (messages d' ! n)" by auto
qed

lemma inbox_facts:
  "available inbox_db"
  "find (\<lambda>x. mid x = 5) (messages inbox_db) = None"
  "find (\<lambda>x. mid x = 0) (messages inbox_db) =
     Some \<lparr> mid = 0, sender = ''b'', recipient = ''a'', content = ''hi'',
            read = False, readAt = None, createdAt = 10, updatedAt = 10 \<rparr>"
  by (simp_all add: inbox_db_def strangers_db_def)

theorem put_mark_read_recipient_only_witness:
  "put_mark_read inbox_db 20 ''a'' 5 = (Failure 404 ''Message not found'', inbox_db) \<and>
   put_mark_read inbox_db 20 ''b'' 0 = (Failure 403 ''Not authorized'', inbox_db) \<and>
   (\<exists>d'. put_mark_read inbox_db 20 ''a'' 0 =
           (Json 200 \<lparr> mid = 0, sender = ''b'', recipient = ''a'', content = ''hi'',
                       read = True, readAt = Some 20, createdAt = 10, updatedAt = 20 \<rparr>, d') \<and>
         find (\<lambda>x. mid x = 0) (messages d') =
           Some \<lparr> mid = 0, sender = ''b'', recipient = ''a'', content = ''hi'',
                  read = True, readAt = Some 20, createdAt = 10, updatedAt = 20 \<rparr>)"
proof -
  let ?m = "\<lparr> mid = 0, sender = ''b'', recipient = ''a'', content = ''hi'',
            read = False, readAt = None, createdAt = 10, updatedAt = 10 \<rparr>"
  from put_mark_read_recipient_only [of inbox_db 5 20 "''a''"] inbox_facts
  have a: "put_mark_read inbox_db 20 ''a'' 5 = (Failure 404 ''Message not found'', inbox_db)"
    by blast
  have "recipient ?m \<noteq> ''b''" by simp
  with put_mark_read_recipient_only [of inbox_db 0 20 "''b''"] inbox_facts
  have b: "put_mark_read inbox_db 20 ''b'' 0 = (Failure 403 ''Not authorized'', inbox_db)"
    by blast
  have "recipient ?m = ''a''" by simp
  with put_mark_read_recipient_only [of inbox_db 0 20 "''a''"] inbox_facts
  have "\<exists>d'. put_mark_read inbox_db 20 ''a'' 0 =
                (Json 200 (?m\<lparr> read := True, readAt := Some 20, updatedAt := 20 \<rparr>), d') \<and>
              find (\<lambda>x. mid x = 0) (messages d') =
                Some (?m\<lparr> read := True, readAt := Some 20, updatedAt := 20 \<rparr>)"
    by blast
  then have c: "\<exists>d'. put_mark_read inbox_db 20 ''a'' 0 =
           (Json 200 \<lparr> mid = 0, sender = ''b'', recipient = ''a'', content = ''hi'',
                       read = True, readAt = Some 20, createdAt = 10, updatedAt = 20 \<rparr>, d') \<and>
         find (\<lambda>x. mid x = 0) (messages d') =
           Some \<lparr> mid = 0, sender = ''b'', recipient = ''a'', content = ''hi'',
                  read = True, readAt = Some 20, createdAt = 10, updatedAt = 20 \<rparr>"
    by simp
  from a b c show ?thesis by blast
qed

text \<open>The store \<open>inbox_db\<close> is what the socket path leaves when \<open>b\<close> sends to \<open>a\<close>.\<close>

lemma inbox_db_reachable:
  "db (fst (sendMessage (two_in_room strangers_db) 10 sockB
              \<lparr> p_recipient = Some ''a'', p_content = Some ''hi'', p_timestamp = None \<rparr>)) = inbox_db"
  by (simp add: example_defs send_defs inbox_db_def Let_def)

text \<open>A pair that does not pass the connection check: the history route answers 403 and
  the store is left as it was.\<close>

lemma get_messages_not_connected:
  assumes "available d" and "find (\<lambda>u. uid u = a) (users d) = Some cu"
    and "b \<notin> set (connections cu)"
  shows "get_messages d now a b = (Failure 403 ''You can only chat with connected users'', d)"
  using assms
  by (simp add: get_messages_def User_findById_def isConnected_def list_ex_iff)

text \<open>So for the two unconnected users, the message from \<open>b\<close> stays unread and still counts.\<close>

lemma get_messages_unconnected_example:
  "get_messages inbox_db 20 ''a'' ''b''
     = (Failure 403 ''You can only chat with connected users'', inbox_db) \<and>
   unread_from ''b'' ''a'' (messages (snd (get_messages inbox_db 20 ''a'' ''b'')) ! 0) \<and>
   get_unread_count (snd (get_messages inbox_db 20 ''a'' ''b'')) ''a'' = Json 200 1"
  by (simp add: get_messages_def User_findById_def isConnected_def inbox_db_def strangers_db_def
      unread_from_def get_unread_count_def)










section \<open>Theorems about the conversation list\<close>

lemma set_set_add: "set (set_add s x) = insert x (set s)"
  by (auto simp add: set_add_def)

lemma distinct_set_add: "distinct s \<Longrightarrow> distinct (set_add s x)"
  by (simp add: set_add_def)

lemma set_add_partners:
  "set (add_partners u s m) = set s \<union> ({sender m, recipient m} - {u})"
  by (auto simp add: add_partners_def set_set_add Let_def)

lemma distinct_add_partners: "distinct s \<Longrightarrow> distinct (add_partners u s m)"
  by (simp add: add_partners_def distinct_set_add Let_def)

lemma set_foldl_partners:
  "set (foldl (add_partners u) s ms) = set s \<union> (\<Union>m \<in> set ms. {sender m, recipient m} - {u})"
  by (induction ms arbitrary: s) (auto simp add: set_add_partners)

lemma distinct_foldl_partners:
  "distinct s \<Longrightarrow> distinct (foldl (add_partners u) s ms)"
  by (induction ms arbitrary: s) (simp_all add: distinct_add_partners)

lemma distinct_conversationPartners: "distinct (conversationPartners u ms)"
  by (simp add: conversationPartners_def distinct_foldl_partners)

lemma set_conversationPartners:
  "set (conversationPartners u (newest_first (filter (involves u) ms)))
   = {p. p \<noteq> u \<and> (\<exists>m \<in> set ms. between u p m)}"
  by (auto simp add: conversationPartners_def set_foldl_partners newest_first_def
      involves_def between_def)

lemma findOne_newest_Some:
  assumes "x \<in> set ms"
  shows "\<exists>m. findOne_newest ms = Some m \<and> m \<in> set ms \<and> (\<forall>m' \<in> set ms. createdAt m' \<le> createdAt m)"
proof -
  have s: "sorted (map (\<lambda>m. - createdAt m) (newest_first ms))"
    and e: "set (newest_first ms) = set ms"
    by (simp_all add: newest_first_def)
  from assms e obtain m rest where c: "newest_first ms = m # rest"
    by (cases "newest_first ms") auto
  from s c have "\<forall>m' \<in> set (m # rest). createdAt m' \<le> createdAt m" by auto
  with c e have "\<forall>m' \<in> set ms. createdAt m' \<le> createdAt m" by simp
  moreover from c e have "m \<in> set ms" by auto
  moreover from c have "findOne_newest ms = Some m" by (simp add: findOne_newest_def)
  ultimately show ?thesis by blast
qed

lemma partnerId_conversation_of: "map partnerId (map (conversation_of d u) ps) = ps"
  by (induction ps) (simp_all add: conversation_of_def)

lemma distinct_map_sort_key:
  "distinct (map g (sort_key k xs)) = distinct (map g xs)"
  by (simp add: distinct_map)

lemma newest_conversations_first:
  "sorted_wrt (\<lambda>x y. last_time y \<le> last_time x) (sort_key (\<lambda>c. - last_time c) cs)"
proof -
  have "sorted (map (\<lambda>c. - last_time c) (sort_key (\<lambda>c. - last_time c) cs))"
    by (rule sorted_sort_key)
  then show ?thesis by (simp add: sorted_map)
qed

lemma unread_from_fun:
  "unread_from p u = (\<lambda>m. sender m = p \<and> recipient m = u \<and> \<not> read m)"
  by (rule ext) (simp add: unread_from_def)

lemma conversation_of_entry:
  assumes "x \<in> set (messages d)" and "between u p x"
  shows "\<exists>m. lastMessage (conversation_of d u p) = Some m \<and> m \<in> set (messages d) \<and>
           between u p m \<and>
           (\<forall>m' \<in> set (messages d). between u p m' \<longrightarrow> createdAt m' \<le> createdAt m) \<and>
           last_time (conversation_of d u p) = createdAt m"
proof -
  from assms have "x \<in> set (filter (between u p) (messages d))" by simp
  from findOne_newest_Some [OF this]
  obtain m where "findOne_newest (filter (between u p) (messages d)) = Some m"
    and "m \<in> set (filter (between u p) (messages d))"
    and "\<forall>m' \<in> set (filter (between u p) (messages d)). createdAt m' \<le> createdAt m"
    by blast
  then show ?thesis by (auto simp add: conversation_of_def last_time_def)
qed

text \<open>
  C8. For every identity \<open>u\<close> (the store being reachable) the conversation list has one
  entry for each partner, without repetition, and the partners are exactly the identities
  other than \<open>u\<close> with at least one message between them and \<open>u\<close>; each entry carries a most
  recent message between the pair and the number of unread messages from the partner to
  \<open>u\<close>; and the entries are in descending order of the creation time of their last
  message.
\<close>

theorem get_conversations_partners:
  assumes "available d"
  shows "\<exists>cs. get_conversations d u = Json 200 cs \<and>
           distinct (map partnerId cs) \<and>
           set (map partnerId cs) = {p. p \<noteq> u \<and> (\<exists>m \<in> set (messages d). between u p m)} \<and>
           (\<forall>c \<in> set cs.
              (\<exists>m. lastMessage c = Some m \<and> m \<in> set (messages d) \<and> between u (partnerId c) m \<and>
                   (\<forall>m' \<in> set (messages d). between u (partnerId c) m' \<longrightarrow>
                        createdAt m' \<le> createdAt m) \<and>
                   last_time c = createdAt m) \<and>
              unreadCount c =
                length (filter (\<lambda>m. sender m = partnerId c \<and> recipient m = u \<and> \<not> read m)
                         (messages d))) \<and>
           sorted_wrt (\<lambda>x y. last_time y \<le> last_time x) cs"
proof -
  let ?ps = "conversationPartners u (newest_first (filter (involves u) (messages d)))"
  let ?cs = "sort_key (\<lambda>c. - last_time c) (map (conversation_of d u) ?ps)"
  from assms have e: "get_conversations d u = Json 200 ?cs"
    by (simp add: get_conversations_def Let_def)
  have ids: "map partnerId (map (conversation_of d u) ?ps) = ?ps"
    by (rule partnerId_conversation_of)
  have dist: "distinct (map partnerId ?cs)"
    using distinct_conversationPartners [of u] by (simp only: distinct_map_sort_key ids)
  have "set (map partnerId ?cs) = set (map partnerId (map (conversation_of d u) ?ps))"
    by (simp only: set_map set_sort)
  then have st: "set (map partnerId ?cs) = {p. p \<noteq> u \<and> (\<exists>m \<in> set (messages d). between u p m)}"
    by (simp only: ids set_conversationPartners)
  have ent: "\<forall>c \<in> set ?cs.
              (\<exists>m. lastMessage c = Some m \<and> m \<in> set (messages d) \<and> between u (partnerId c) m \<and>
                   (\<forall>m' \<in> set (messages d). between u (partnerId c) m' \<longrightarrow>
                        createdAt m' \<le> createdAt m) \<and>
                   last_time c = createdAt m) \<and>
              unreadCount c =
                length (filter (\<lambda>m. sender m = partnerId c \<and> recipient m = u \<and> \<not> read m)
                         (messages d))"
  proof
    fix c assume "c \<in> set ?cs"
    then obtain p where p: "p \<in> set ?ps" and c: "c = conversation_of d u p" by auto
    from p obtain x where x: "x \<in> set (messages d)" "between u p x"
      by (auto simp add: set_conversationPartners)
    have pid: "partnerId c = p" by (simp add: c conversation_of_def)
    have cnt: "unreadCount c =
                length (filter (\<lambda>m. sender m = p \<and> recipient m = u \<and> \<not> read m) (messages d))"
      by (simp add: c conversation_of_def unread_from_fun)
    from conversation_of_entry [OF x] cnt
    show "(\<exists>m. lastMessage c = Some m \<and> m \<in> set (messages d) \<and> between u (partnerId c) m \<and>
                   (\<forall>m' \<in> set (messages d). between u (partnerId c) m' \<longrightarrow>
                        createdAt m' \<le> createdAt m) \<and>
                   last_time c = createdAt m) \<and>
              unreadCount c =
                length (filter (\<lambda>m. sender m = partnerId c \<and> recipient m = u \<and> \<not> read m)
                         (messages d))"
      unfolding pid c [symmetric] by simp
  qed
  have srt: "sorted_wrt (\<lambda>x y. last_time y \<le> last_time x) ?cs"
    by (rule newest_conversations_first)
  show ?thesis
  proof (intro exI conjI)
    show "get_conversations d u = Json 200 ?cs" by (rule e)
  qed (rule dist st ent srt)+
qed

text \<open>The list for \<open>a\<close> in the store of three users: \<open>c\<close> before \<open>b\<close>, and no entry for the
  message \<open>a\<close> sent to itself.\<close>

lemma three_db_conversations:
  "get_conversations three_db ''a'' =
     Json 200
       [\<lparr> partnerId = ''c'', partner = Some \<lparr> uid = ''c'', connections = [''a''] \<rparr>,
          lastMessage = Some \<lparr> mid = 1, sender = ''a'', recipient = ''c'', content = ''two'',
                                 read = False, readAt = None, createdAt = 30, updatedAt = 30 \<rparr>,
          unreadCount = 1 \<rparr>,
        \<lparr> partnerId = ''b'', partner = Some \<lparr> uid = ''b'', connections = [''a''] \<rparr>,
          lastMessage = Some \<lparr> mid = 0, sender = ''b'', recipient = ''a'', content = ''one'',
                                 read = False, readAt = None, createdAt = 10, updatedAt = 10 \<rparr>,
          unreadCount = 1 \<rparr>]"
  by (simp add: three_db_def get_conversations_def newest_first_def involves_def between_def
      conversationPartners_def add_partners_def set_add_def conversation_of_def findOne_newest_def
      unread_from_def last_time_def Let_def)

theorem get_conversations_partners_witness:
  "available three_db \<and>
   (\<exists>cs. get_conversations three_db ''a'' = Json 200 cs \<and>
         map partnerId cs = [''c'', ''b''] \<and>
         map unreadCount cs = [1, 1] \<and>
         map last_time cs = [30, 10] \<and>
         distinct (map partnerId cs) \<and>
         set (map partnerId cs) =
           {p. p \<noteq> ''a'' \<and> (\<exists>m \<in> set (messages three_db). between ''a'' p m)} \<and>
         sorted_wrt (\<lambda>x y. last_time y \<le> last_time x) cs)"
proof -
  have av: "available three_db" by (simp add: three_db_def)
  from get_conversations_partners [OF av, of "''a''"]
  obtain cs where cs: "get_conversations three_db ''a'' = Json 200 cs"
    and d: "distinct (map partnerId cs)"
    and st: "set (map partnerId cs) =
           {p. p \<noteq> ''a'' \<and> (\<exists>m \<in> set (messages three_db). between ''a'' p m)}"
    and srt: "sorted_wrt (\<lambda>x y. last_time y \<le> last_time x) cs"
    by blast
  from cs have ids: "map partnerId cs = [''c'', ''b'']"
    and cnt: "map unreadCount cs = [1, 1]"
    and lt: "map last_time cs = [30, 10]"
    by (auto simp add: three_db_conversations last_time_def)
  show ?thesis
  proof (intro conjI exI)
    show "get_conversations three_db ''a'' = Json 200 cs" by (rule cs)
  qed (rule av ids cnt lt d st srt)+
qed

end
